theory Spec2Isabelle
  imports Complex_Main
begin

section \<open>Industrial process control: the simulation engine\<close>

text \<open>
  The repository is a Next.js front end whose only algorithmic content is the periodic
  simulation step of its two dashboards and a few derived quantities computed by the
  display components. This theory embeds those computations.

  Numbers. A JavaScript number that is known to be finite is modelled as a \<open>real\<close>:
  rounding is not modelled, and \<open>Math.max\<close>, \<open>Math.min\<close> are \<open>max\<close>, \<open>min\<close>.
  Where the source can leave the finite numbers (a division, \<open>parseFloat\<close> of an
  unparsable string) the type is \<open>number\<close> below, which adds the two infinities and
  NaN and whose operations overflow.

  Randomness. Every call of \<open>Math.random()\<close> is an explicit argument \<open>r\<close>; the
  run-time promises \<open>0 \<le> r < 1\<close>, which the theorems take as hypotheses.
\<close>

subsection \<open>Data model\<close>

text \<open>\<open>interface ProcessData\<close> (process-control-dashboard.tsx, process-trend-chart.tsx).\<close>

record ProcessData =
  timestamp :: int
  pv :: real
  sp :: real
  aiSp :: real

text \<open>
  The \<open>useState\<close> cells of \<open>ProcessControlDashboard\<close>. The two limits are slider
  values, one-element arrays of which the step reads element 0 only; the fields below
  hold that element.
\<close>

record Dashboard =
  processData :: "ProcessData list"
  currentPV :: real
  currentSP :: real
  aiEnabled :: bool
  spLowLimit :: real
  spHighLimit :: real
  manualSP :: real

definition initialDashboard :: Dashboard where
  "initialDashboard =
     \<lparr>processData = [], currentPV = 45.2, currentSP = 50.0, aiEnabled = True,
      spLowLimit = 20, spHighLimit = 80, manualSP = 50.0\<rparr>"

subsection \<open>The single-parameter step\<close>

text \<open>\<open>Array.prototype.slice(-n)\<close>: the last \<open>n\<close> elements, the whole array when it is shorter.\<close>

definition sliceLast :: "nat \<Rightarrow> 'a list \<Rightarrow> 'a list" where
  "sliceLast n xs = drop (if n < length xs then length xs - n else 0) xs"

text \<open>
  \<^verbatim>\<open>const aiSp = aiEnabled
    ? Math.max(spLowLimit[0], Math.min(spHighLimit[0], currentSP + (Math.random() - 0.5) * 2))
    : manualSP\<close>
  The callback's constant \<open>aiSp\<close> shares its name with the record field; the function
  that computes it is \<open>nextAiSp\<close>, and likewise \<open>nextPV\<close> computes \<open>newPV\<close>.
\<close>

definition nextAiSp :: "bool \<Rightarrow> real \<Rightarrow> real \<Rightarrow> real \<Rightarrow> real \<Rightarrow> real \<Rightarrow> real" where
  "nextAiSp enabled low high current manual r =
     (if enabled then max low (min high (current + (r - 0.5) * 2)) else manual)"

text \<open>
  \<^verbatim>\<open>const error = aiSp - currentPV
  const newPV = currentPV + error * 0.1 + (Math.random() - 0.5) * 1.5\<close>
\<close>

definition nextPV :: "real \<Rightarrow> real \<Rightarrow> real \<Rightarrow> real" where
  "nextPV current aiSetpoint r =
     (let error = aiSetpoint - current in current + error * 0.1 + (r - 0.5) * 1.5)"

text \<open>
  \<^verbatim>\<open>setProcessData((prev) =>
    [...prev, { timestamp: now, pv: newPV, sp: aiSp, aiSp: aiSp }].slice(-50))\<close>
\<close>

definition setProcessData :: "ProcessData list \<Rightarrow> ProcessData \<Rightarrow> ProcessData list" where
  "setProcessData prev point = sliceLast 50 (prev @ [point])"

text \<open>
  One firing of the interval callback: \<open>now\<close> is \<open>Date.now()\<close>, \<open>r1\<close> and \<open>r2\<close> are
  the two random draws in the order the callback makes them. The timer itself
  (\<open>setInterval\<close> and \<open>clearInterval\<close> inside \<open>useEffect\<close>) belongs to the host
  and is not modelled.
\<close>

definition tick :: "int \<Rightarrow> real \<Rightarrow> real \<Rightarrow> Dashboard \<Rightarrow> Dashboard" where
  "tick now r1 r2 s =
     (let aiSetpoint = nextAiSp (aiEnabled s) (spLowLimit s) (spHighLimit s) (currentSP s) (manualSP s) r1;
          newPV = nextPV (currentPV s) aiSetpoint r2
      in s\<lparr>currentPV := newPV,
            currentSP := aiSetpoint,
            processData :=
              setProcessData (processData s)
                \<lparr>timestamp = now, pv = newPV, sp = aiSetpoint, aiSp = aiSetpoint\<rparr>\<rparr>)"

text \<open>
  The specification's \<open>clamp(x, low, high)\<close>, written from its words: \<open>x\<close> when it
  is inside the bounds, the bound it crosses otherwise.
\<close>

definition clamp :: "real \<Rightarrow> real \<Rightarrow> real \<Rightarrow> real" where
  "clamp x low high = (if x < low then low else if high < x then high else x)"

subsection \<open>User inputs and runs of the single-parameter dashboard\<close>

text \<open>
  Between two firings the state changes only through the \<open>useState\<close> setters; a run
  is a sequence of firings and setter calls applied to the initial state.
\<close>

datatype event =
    Tick int real real
  | SetAiEnabled bool
  | SetManualSP real
  | SetSpLowLimit real
  | SetSpHighLimit real

fun step :: "Dashboard \<Rightarrow> event \<Rightarrow> Dashboard" where
  "step s (Tick now r1 r2) = tick now r1 r2 s"
| "step s (SetAiEnabled b) = s\<lparr>aiEnabled := b\<rparr>"
| "step s (SetManualSP v) = s\<lparr>manualSP := v\<rparr>"
| "step s (SetSpLowLimit v) = s\<lparr>spLowLimit := v\<rparr>"
| "step s (SetSpHighLimit v) = s\<lparr>spHighLimit := v\<rparr>"

fun run :: "Dashboard \<Rightarrow> event list \<Rightarrow> Dashboard" where
  "run s [] = s"
| "run s (e # es) = run (step s e) es"

text \<open>The firings among the events of a run.\<close>

fun isTick :: "event \<Rightarrow> bool" where
  "isTick (Tick now r1 r2) = True"
| "isTick (SetAiEnabled b) = False"
| "isTick (SetManualSP v) = False"
| "isTick (SetSpLowLimit v) = False"
| "isTick (SetSpHighLimit v) = False"

text \<open>The operator switches AI off, types the setpoint 100 and the timer fires once.\<close>

definition manualOverrideRun :: Dashboard where
  "manualOverrideRun =
     run initialDashboard [SetAiEnabled False, SetManualSP 100, Tick 0 (1 / 2) (1 / 2)]"

text \<open>A full history of fifty samples with the timestamps 0 to 49.\<close>

definition fullHistory :: "ProcessData list" where
  "fullHistory = map (\<lambda>i. \<lparr>timestamp = int i, pv = 45.2, sp = 50.0, aiSp = 50.0\<rparr>) [0..<50]"

subsection \<open>Data model of the multi-parameter dashboard\<close>

text \<open>The element type of \<open>ProcessParameter.trend\<close>.\<close>

record TrendPoint =
  timestamp :: int
  pv :: real
  sp :: real

text \<open>
  \<open>interface ProcessParameter\<close> (process-parameter-card.tsx); the field \<open>id\<close> is
  \<open>idP\<close> here.
\<close>

record ProcessParameter =
  idP :: string
  name :: string
  unit :: string
  pv :: real
  sp :: real
  aiSp :: real
  lowLimit :: real
  highLimit :: real
  trend :: "TrendPoint list"
  color :: string
  icon :: string

text \<open>\<open>interface FractionData\<close> (fraction-main-display.tsx).\<close>

record FractionData =
  timestamp :: int
  "value" :: real
  target :: real

text \<open>\<^verbatim>\<open>setFractionData((prev) => [...prev, newDataPoint].slice(-50))\<close>\<close>

definition setFractionData :: "FractionData list \<Rightarrow> FractionData \<Rightarrow> FractionData list" where
  "setFractionData prev newDataPoint = sliceLast 50 (prev @ [newDataPoint])"

text \<open>
  Modelled from the spec: the per-parameter body of the multi-parameter step, which the
  project documentation quotes only as \<open>prev.map((param) => { ... })\<close>. The
  specification says of it that each parameter's trend history is appended and truncated
  to 50 entries, as the two buffers above are.
\<close>

definition appendTrend :: "ProcessParameter \<Rightarrow> TrendPoint \<Rightarrow> ProcessParameter" where
  "appendTrend param point = param\<lparr>trend := sliceLast 50 (trend param @ [point])\<rparr>"

subsection \<open>The convergence indicator\<close>

text \<open>The four lucide icons \<open>getActionIcon\<close> chooses from (convergence-indicator.tsx).\<close>

datatype actionIcon = CheckCircle | ArrowUp | ArrowDown | Minus

definition getActionIcon :: "real \<Rightarrow> bool \<Rightarrow> actionIcon" where
  "getActionIcon error isConverged =
     (if isConverged then CheckCircle
      else if error > 2 then ArrowUp
      else if error < - 2 then ArrowDown
      else Minus)"

definition getActionText :: "real \<Rightarrow> bool \<Rightarrow> string" where
  "getActionText error isConverged =
     (if isConverged then ''System Converged''
      else if error > 2 then ''Increase Actuator''
      else if error < - 2 then ''Decrease Actuator''
      else ''Fine Tuning'')"

text \<open>
  The specification's names for the four outcomes, and the classifier written from its
  words: \<open>Converged\<close> overrides all, then \<open>Increase\<close> for an error above 2,
  \<open>Decrease\<close> for an error below -2, \<open>FineTune\<close> otherwise.
\<close>

datatype direction = Converged | Increase | Decrease | FineTune

definition classify :: "real \<Rightarrow> bool \<Rightarrow> direction" where
  "classify error isConverged =
     (if isConverged then Converged
      else if 2 < error then Increase
      else if error < - 2 then Decrease
      else FineTune)"

fun directionOfIcon :: "actionIcon \<Rightarrow> direction" where
  "directionOfIcon CheckCircle = Converged"
| "directionOfIcon ArrowUp = Increase"
| "directionOfIcon ArrowDown = Decrease"
| "directionOfIcon Minus = FineTune"

definition directionOfText :: "string \<Rightarrow> direction option" where
  "directionOfText t =
     (if t = ''System Converged'' then Some Converged
      else if t = ''Increase Actuator'' then Some Increase
      else if t = ''Decrease Actuator'' then Some Decrease
      else if t = ''Fine Tuning'' then Some FineTune
      else None)"

subsection \<open>Numbers that may not be finite\<close>

text \<open>
  A JavaScript number as a display component may receive or compute it: a finite value,
  one of the two infinities, or NaN. Rounding and the sign of zero are not modelled;
  overflow is.
\<close>

datatype number = Num real | PosInfinity | NegInfinity | NaN

fun isFinite :: "number \<Rightarrow> bool" where
  "isFinite (Num x) = True"
| "isFinite PosInfinity = False"
| "isFinite NegInfinity = False"
| "isFinite NaN = False"

text \<open>
  The magnitude from which the exact result of an operation on doubles is delivered as
  an infinity: half a unit in the last place above the largest double.
\<close>

definition overflowBound :: real where
  "overflowBound = 2 ^ 1024 - 2 ^ 970"

definition ofReal :: "real \<Rightarrow> number" where
  "ofReal x =
     (if overflowBound \<le> x then PosInfinity
      else if x \<le> - overflowBound then NegInfinity
      else Num x)"

text \<open>\<open>a - b\<close> on numbers.\<close>

fun jsMinus :: "number \<Rightarrow> number \<Rightarrow> number" where
  "jsMinus (Num a) (Num b) = ofReal (a - b)"
| "jsMinus (Num a) PosInfinity = NegInfinity"
| "jsMinus (Num a) NegInfinity = PosInfinity"
| "jsMinus PosInfinity (Num b) = PosInfinity"
| "jsMinus PosInfinity NegInfinity = PosInfinity"
| "jsMinus PosInfinity PosInfinity = NaN"
| "jsMinus NegInfinity (Num b) = NegInfinity"
| "jsMinus NegInfinity PosInfinity = NegInfinity"
| "jsMinus NegInfinity NegInfinity = NaN"
| "jsMinus NaN y = NaN"
| "jsMinus x NaN = NaN"

text \<open>
  \<open>a / b\<close> on numbers. A zero divisor gives NaN for \<open>0 / 0\<close> and an infinity for any
  other dividend. (The sign of that infinity also depends on the sign of the zero, which
  is taken as positive; both callers take the absolute value.)
\<close>

fun jsDivide :: "number \<Rightarrow> number \<Rightarrow> number" where
  "jsDivide (Num a) (Num b) =
     (if b = 0 then (if a = 0 then NaN else if 0 < a then PosInfinity else NegInfinity)
      else ofReal (a / b))"
| "jsDivide (Num a) PosInfinity = Num 0"
| "jsDivide (Num a) NegInfinity = Num 0"
| "jsDivide PosInfinity (Num b) = (if 0 \<le> b then PosInfinity else NegInfinity)"
| "jsDivide NegInfinity (Num b) = (if 0 \<le> b then NegInfinity else PosInfinity)"
| "jsDivide PosInfinity PosInfinity = NaN"
| "jsDivide PosInfinity NegInfinity = NaN"
| "jsDivide NegInfinity PosInfinity = NaN"
| "jsDivide NegInfinity NegInfinity = NaN"
| "jsDivide NaN y = NaN"
| "jsDivide x NaN = NaN"

fun Math_abs :: "number \<Rightarrow> number" where
  "Math_abs (Num x) = Num \<bar>x\<bar>"
| "Math_abs PosInfinity = PosInfinity"
| "Math_abs NegInfinity = PosInfinity"
| "Math_abs NaN = NaN"

text \<open>\<open>a * b\<close> on numbers.\<close>

fun jsTimes :: "number \<Rightarrow> number \<Rightarrow> number" where
  "jsTimes (Num a) (Num b) = ofReal (a * b)"
| "jsTimes (Num a) PosInfinity =
     (if a = 0 then NaN else if 0 < a then PosInfinity else NegInfinity)"
| "jsTimes (Num a) NegInfinity =
     (if a = 0 then NaN else if 0 < a then NegInfinity else PosInfinity)"
| "jsTimes PosInfinity (Num b) =
     (if b = 0 then NaN else if 0 < b then PosInfinity else NegInfinity)"
| "jsTimes NegInfinity (Num b) =
     (if b = 0 then NaN else if 0 < b then NegInfinity else PosInfinity)"
| "jsTimes PosInfinity PosInfinity = PosInfinity"
| "jsTimes PosInfinity NegInfinity = NegInfinity"
| "jsTimes NegInfinity PosInfinity = NegInfinity"
| "jsTimes NegInfinity NegInfinity = PosInfinity"
| "jsTimes NaN y = NaN"
| "jsTimes x NaN = NaN"

text \<open>\<open>a || b\<close> on numbers: the left operand unless it is falsy, that is 0 or NaN.\<close>

definition orElse :: "number \<Rightarrow> number \<Rightarrow> number" where
  "orElse a b = (if a = Num 0 \<or> a = NaN then b else a)"

subsection \<open>Deviation percentages of the display components\<close>

text \<open>
  \<^verbatim>\<open>const error = parameter.sp - parameter.pv
  const errorPercentage = Math.abs(error / parameter.sp) * 100\<close>
  (process-parameter-card.tsx; the parameter's fields are finite)
\<close>

definition parameterError :: "ProcessParameter \<Rightarrow> number" where
  "parameterError parameter = jsMinus (Num (sp parameter)) (Num (pv parameter))"

definition parameterErrorPercentage :: "ProcessParameter \<Rightarrow> number" where
  "parameterErrorPercentage parameter =
     jsTimes (Math_abs (jsDivide (parameterError parameter) (Num (sp parameter)))) (Num 100)"

text \<open>
  \<^verbatim>\<open>const error = targetFraction - currentFraction
  const errorPercentage = Math.abs(error / targetFraction) * 100\<close>
  (fraction-main-display.tsx; both properties are numbers of any kind, the target being
  whatever the input handler below passed on)
\<close>

definition fractionError :: "number \<Rightarrow> number \<Rightarrow> number" where
  "fractionError currentFraction targetFraction = jsMinus targetFraction currentFraction"

definition fractionErrorPercentage :: "number \<Rightarrow> number \<Rightarrow> number" where
  "fractionErrorPercentage currentFraction targetFraction =
     jsTimes (Math_abs (jsDivide (fractionError currentFraction targetFraction) targetFraction))
       (Num 100)"

text \<open>
  The first of the eight parameters as the dashboard creates it (the icon, an emoji in
  the source, is left empty).
\<close>

definition oreInitial :: ProcessParameter where
  "oreInitial =
     \<lparr>idP = ''ore'', name = ''Ore Feed Rate'', unit = ''t/h'', pv = 125.5, sp = 130.0,
      aiSp = 130.0, lowLimit = 100, highLimit = 200, trend = [], color = ''amber'', icon = ''''\<rparr>"

text \<open>The same parameter with its low limit moved to 0 and its setpoint at 0.\<close>

definition oreAtZero :: ProcessParameter where
  "oreAtZero =
     \<lparr>idP = ''ore'', name = ''Ore Feed Rate'', unit = ''t/h'', pv = 125.5, sp = 0, aiSp = 0,
      lowLimit = 0, highLimit = 200, trend = [], color = ''amber'', icon = ''''\<rparr>"

subsection \<open>The target-fraction input\<close>

text \<open>
  \<^verbatim>\<open>onChange={(e) => onTargetChange(Number.parseFloat(e.target.value) || 0)}\<close>
  The library function \<open>Number.parseFloat\<close> and the callback are arguments; the result
  is what the callback returns for the value it is invoked with.
\<close>

definition onChange :: "(string \<Rightarrow> number) \<Rightarrow> (number \<Rightarrow> 'r) \<Rightarrow> string \<Rightarrow> 'r" where
  "onChange parseFloat onTargetChange v = onTargetChange (orElse (parseFloat v) (Num 0))"

subsection \<open>The fraction computed from the parameters\<close>

text \<open>\<open>parameters[i]?.pv\<close>: undefined (\<open>None\<close>) when the array has no element \<open>i\<close>.\<close>

definition pvAt :: "ProcessParameter list \<Rightarrow> nat \<Rightarrow> real option" where
  "pvAt parameters i = (if i < length parameters then Some (pv (parameters ! i)) else None)"

text \<open>\<open>v || d\<close> for a possibly undefined finite number: \<open>d\<close> when \<open>v\<close> is undefined or 0.\<close>

definition orDefault :: "real option \<Rightarrow> real \<Rightarrow> real" where
  "orDefault v d = (case v of None \<Rightarrow> d | Some x \<Rightarrow> if x = 0 then d else x)"

text \<open>
  \<^verbatim>\<open>const oreInfluence = ((parameters[0]?.pv || 125) / 130) * 20
  const waterInfluence = ((parameters[1]?.pv || 45) / 48) * 15
  const calculatedFraction =
    oreInfluence + waterInfluence + powerInfluence + densityInfluence + noise\<close>
  The project documentation quotes the computation this far only: how
  \<open>powerInfluence\<close>, \<open>densityInfluence\<close> and \<open>noise\<close> are computed is not shown, and
  they are arguments.
\<close>

definition oreInfluence :: "ProcessParameter list \<Rightarrow> real" where
  "oreInfluence parameters = (orDefault (pvAt parameters 0) 125 / 130) * 20"

definition waterInfluence :: "ProcessParameter list \<Rightarrow> real" where
  "waterInfluence parameters = (orDefault (pvAt parameters 1) 45 / 48) * 15"

definition calculatedFraction :: "ProcessParameter list \<Rightarrow> real \<Rightarrow> real \<Rightarrow> real \<Rightarrow> real" where
  "calculatedFraction parameters powerInfluence densityInfluence noise =
     oreInfluence parameters + waterInfluence parameters + powerInfluence + densityInfluence + noise"

section \<open>The update rule\<close>

text \<open>
  C1. With AI enabled and \<open>low < high\<close>, the new setpoint is the previous one moved by a
  perturbation \<open>u = (r - 0.5) * 2\<close> that lies in \<open>[-1, 1]\<close>, clamped to the bounds; so
  it lies in \<open>[low, high]\<close>.
\<close>

theorem nextAiSp_enabled_clamped:
  assumes "low < high" and "0 \<le> r" and "r < 1"
  shows "- 1 \<le> (r - 0.5) * 2 \<and> (r - 0.5) * 2 \<le> 1 \<and>
         nextAiSp True low high current manual r = clamp (current + (r - 0.5) * 2) low high \<and>
         low \<le> nextAiSp True low high current manual r \<and>
         nextAiSp True low high current manual r \<le> high"
  using assms by (auto simp: nextAiSp_def clamp_def)

theorem nextAiSp_enabled_clamped_witness:
  "(20::real) < 80 \<and> (0::real) \<le> 1 / 4 \<and> (1 / 4 :: real) < 1 \<and>
   nextAiSp True 20 80 50 50 (1 / 4) = clamp (50 + (1 / 4 - 0.5) * 2) 20 80 \<and>
   20 \<le> nextAiSp True 20 80 50 50 (1 / 4) \<and> nextAiSp True 20 80 50 50 (1 / 4) \<le> 80"
  using nextAiSp_enabled_clamped [of 20 80 "1 / 4" 50 50] by simp

text \<open>
  C2. One step of the process variable is \<open>pv + (aiSp - pv) * 0.1 + n\<close> with the
  noise \<open>n = (r - 0.5) * 1.5\<close> in \<open>[-0.75, 0.75]\<close>; from \<open>pv = 45.2\<close> towards
  \<open>aiSp = 50.0\<close> the next value lies within \<open>0.75\<close> of \<open>45.68\<close>.
\<close>

theorem nextPV_lag_plus_noise:
  assumes "0 \<le> r" and "r < 1"
  shows "nextPV current aiSetpoint r = current + (aiSetpoint - current) * 0.1 + (r - 0.5) * 1.5 \<and>
         - 0.75 \<le> (r - 0.5) * 1.5 \<and> (r - 0.5) * 1.5 \<le> 0.75 \<and>
         45.68 - 0.75 \<le> nextPV 45.2 50.0 r \<and> nextPV 45.2 50.0 r \<le> 45.68 + 0.75"
proof -
  have noise: "- 0.75 \<le> (r - 0.5) * 1.5 \<and> (r - 0.5) * 1.5 \<le> 0.75"
    using assms by (simp add: algebra_simps)
  have core: "nextPV 45.2 50.0 r = 45.68 + (r - 0.5) * 1.5"
    by (simp add: nextPV_def Let_def)
  from noise have "45.68 - 0.75 \<le> nextPV 45.2 50.0 r \<and> nextPV 45.2 50.0 r \<le> 45.68 + 0.75"
    unfolding core by linarith
  with noise show ?thesis
    by (simp add: nextPV_def Let_def)
qed

theorem nextPV_lag_plus_noise_witness:
  "(0::real) \<le> 0 \<and> (0::real) < 1 \<and>
   nextPV 45.2 50.0 0 = 45.2 + (50.0 - 45.2) * 0.1 + (0 - 0.5) * 1.5 \<and>
   45.68 - 0.75 \<le> nextPV 45.2 50.0 0 \<and> nextPV 45.2 50.0 0 \<le> 45.68 + 0.75"
  using nextPV_lag_plus_noise [of 0 "45.2" "50.0"] by simp

text \<open>
  C4. With AI disabled the new setpoint is the manual setpoint itself, whatever the
  bounds are: no clamp is applied, and a manual value outside the bounds is kept.
\<close>

theorem nextAiSp_disabled_manual:
  "nextAiSp False low high current manual r = manual \<and>
   nextAiSp False 20 80 current 100 r = 100 \<and>
   currentSP (tick now r r' (s\<lparr>aiEnabled := False\<rparr>)) = manualSP s"
  by (simp add: nextAiSp_def tick_def Let_def)

section \<open>The bounded history\<close>

text \<open>Facts about \<open>slice(-n)\<close> applied after an append.\<close>

lemma sliceLast_append:
  "sliceLast 50 (xs @ [x]) = drop (length xs + 1 - 50) xs @ [x]"
  by (simp add: sliceLast_def)

lemma length_sliceLast_append:
  "length (sliceLast 50 (xs @ [x])) = min 50 (length xs + 1)"
  by (simp add: sliceLast_def)

lemma sliceLast_append_short:
  "length xs < 50 \<Longrightarrow> sliceLast 50 (xs @ [x]) = xs @ [x]"
  by (simp add: sliceLast_def)

lemma sliceLast_append_full:
  "length xs = 50 \<Longrightarrow> sliceLast 50 (xs @ [x]) = tl xs @ [x]"
  by (cases xs) (simp_all add: sliceLast_def)

lemma oldest_gone:
  "distinct (xs @ [x]) \<Longrightarrow> xs \<noteq> [] \<Longrightarrow> hd xs \<notin> set (tl xs @ [x])"
  by (cases xs) auto

lemma sliceLast_fifo:
  "sliceLast 50 (xs @ [x]) = drop (length xs + 1 - 50) xs @ [x] \<and>
   length (sliceLast 50 (xs @ [x])) = min 50 (length xs + 1) \<and>
   last (sliceLast 50 (xs @ [x])) = x \<and>
   (length xs < 50 \<longrightarrow> sliceLast 50 (xs @ [x]) = xs @ [x]) \<and>
   (length xs = 50 \<longrightarrow>
      sliceLast 50 (xs @ [x]) = tl xs @ [x] \<and>
      (distinct (xs @ [x]) \<longrightarrow> hd xs \<notin> set (sliceLast 50 (xs @ [x]))))"
proof -
  have full: "sliceLast 50 (xs @ [x]) = tl xs @ [x] \<and>
      (distinct (xs @ [x]) \<longrightarrow> hd xs \<notin> set (sliceLast 50 (xs @ [x])))"
    if len: "length xs = 50"
  proof -
    from len have ne: "xs \<noteq> []" by auto
    from len have eq: "sliceLast 50 (xs @ [x]) = tl xs @ [x]"
      by (rule sliceLast_append_full)
    have gone: "distinct (xs @ [x]) \<longrightarrow> hd xs \<notin> set (tl xs @ [x])"
      using oldest_gone [of xs x] ne by blast
    show ?thesis
      unfolding eq using gone by simp
  qed
  have last: "last (sliceLast 50 (xs @ [x])) = x"
    by (simp add: sliceLast_append)
  from full last show ?thesis
    using sliceLast_append [of xs x] length_sliceLast_append [of xs x]
      sliceLast_append_short [of xs x]
    by blast
qed

lemma processData_tick:
  "processData (tick now r1 r2 s) =
     setProcessData (processData s)
       \<lparr>ProcessData.timestamp = now,
        pv = nextPV (currentPV s)
              (nextAiSp (aiEnabled s) (spLowLimit s) (spHighLimit s) (currentSP s) (manualSP s) r1) r2,
        sp = nextAiSp (aiEnabled s) (spLowLimit s) (spHighLimit s) (currentSP s) (manualSP s) r1,
        aiSp = nextAiSp (aiEnabled s) (spLowLimit s) (spHighLimit s) (currentSP s) (manualSP s) r1\<rparr>"
  by (simp add: tick_def Let_def)

lemma length_processData_step:
  "length (processData (step s e)) =
     (if isTick e then min 50 (length (processData s) + 1) else length (processData s))"
  by (cases e) (simp_all add: processData_tick setProcessData_def length_sliceLast_append)

lemma length_processData_run:
  "length (processData s) \<le> 50 \<Longrightarrow>
   length (processData (run s es)) = min 50 (length (processData s) + length (filter isTick es))"
proof (induction es arbitrary: s)
  case Nil
  then show ?case by simp
next
  case (Cons e es)
  have bound: "length (processData (step s e)) \<le> 50"
    using Cons.prems by (simp add: length_processData_step)
  have "length (processData (run (step s e) es)) =
      min 50 (length (processData (step s e)) + length (filter isTick es))"
    by (rule Cons.IH [OF bound])
  also have "\<dots> = min 50 (length (processData s) + length (filter isTick (e # es)))"
    using Cons.prems by (cases "isTick e") (simp_all add: length_processData_step min_def)
  finally show ?case by simp
qed

lemma length_fullHistory: "length fullHistory = 50"
  by (simp add: fullHistory_def)

text \<open>
  C3. Appending a sample to a history buffer (the single-parameter trend, also as a whole
  step of the dashboard performs it, the fraction trend, a parameter's trend) yields the
  last 50 entries of the buffer with the sample added at its end: the sample is always
  the last entry, a buffer of fewer than 50 entries only grows by it, and a buffer of 50
  entries loses its first (oldest) entry and keeps the others in order, so that, the
  samples being pairwise different, the evicted one no longer occurs. The length after
  the append is the smaller of 50 and the old length plus one; in a run from the initial
  state it is the smaller of 50 and the number of firings so far.
\<close>

theorem history_bounded_fifo:
  "(setProcessData prev point = drop (length prev + 1 - 50) prev @ [point] \<and>
    length (setProcessData prev point) = min 50 (length prev + 1) \<and>
    last (setProcessData prev point) = point \<and>
    (length prev < 50 \<longrightarrow> setProcessData prev point = prev @ [point]) \<and>
    (length prev = 50 \<longrightarrow>
       setProcessData prev point = tl prev @ [point] \<and>
       (distinct (prev @ [point]) \<longrightarrow> hd prev \<notin> set (setProcessData prev point)))) \<and>
   (setFractionData fprev fpoint = drop (length fprev + 1 - 50) fprev @ [fpoint] \<and>
    length (setFractionData fprev fpoint) = min 50 (length fprev + 1) \<and>
    last (setFractionData fprev fpoint) = fpoint \<and>
    (length fprev < 50 \<longrightarrow> setFractionData fprev fpoint = fprev @ [fpoint]) \<and>
    (length fprev = 50 \<longrightarrow>
       setFractionData fprev fpoint = tl fprev @ [fpoint] \<and>
       (distinct (fprev @ [fpoint]) \<longrightarrow> hd fprev \<notin> set (setFractionData fprev fpoint)))) \<and>
   (trend (appendTrend param tpoint) = drop (length (trend param) + 1 - 50) (trend param) @ [tpoint] \<and>
    length (trend (appendTrend param tpoint)) = min 50 (length (trend param) + 1) \<and>
    last (trend (appendTrend param tpoint)) = tpoint \<and>
    (length (trend param) < 50 \<longrightarrow> trend (appendTrend param tpoint) = trend param @ [tpoint]) \<and>
    (length (trend param) = 50 \<longrightarrow>
       trend (appendTrend param tpoint) = tl (trend param) @ [tpoint] \<and>
       (distinct (trend param @ [tpoint]) \<longrightarrow>
          hd (trend param) \<notin> set (trend (appendTrend param tpoint))))) \<and>
   processData (tick now r1 r2 s) =
     drop (length (processData s) + 1 - 50) (processData s) @
       [\<lparr>ProcessData.timestamp = now,
         pv = nextPV (currentPV s)
               (nextAiSp (aiEnabled s) (spLowLimit s) (spHighLimit s) (currentSP s) (manualSP s) r1) r2,
         sp = nextAiSp (aiEnabled s) (spLowLimit s) (spHighLimit s) (currentSP s) (manualSP s) r1,
         aiSp = nextAiSp (aiEnabled s) (spLowLimit s) (spHighLimit s) (currentSP s) (manualSP s) r1\<rparr>] \<and>
   length (processData (tick now r1 r2 s)) = min 50 (length (processData s) + 1) \<and>
   length (processData (run initialDashboard es)) = min 50 (length (filter isTick es))"
proof -
  have single: "setProcessData prev point = drop (length prev + 1 - 50) prev @ [point] \<and>
    length (setProcessData prev point) = min 50 (length prev + 1) \<and>
    last (setProcessData prev point) = point \<and>
    (length prev < 50 \<longrightarrow> setProcessData prev point = prev @ [point]) \<and>
    (length prev = 50 \<longrightarrow>
       setProcessData prev point = tl prev @ [point] \<and>
       (distinct (prev @ [point]) \<longrightarrow> hd prev \<notin> set (setProcessData prev point)))"
    unfolding setProcessData_def by (rule sliceLast_fifo)
  have fraction: "setFractionData fprev fpoint = drop (length fprev + 1 - 50) fprev @ [fpoint] \<and>
    length (setFractionData fprev fpoint) = min 50 (length fprev + 1) \<and>
    last (setFractionData fprev fpoint) = fpoint \<and>
    (length fprev < 50 \<longrightarrow> setFractionData fprev fpoint = fprev @ [fpoint]) \<and>
    (length fprev = 50 \<longrightarrow>
       setFractionData fprev fpoint = tl fprev @ [fpoint] \<and>
       (distinct (fprev @ [fpoint]) \<longrightarrow> hd fprev \<notin> set (setFractionData fprev fpoint)))"
    unfolding setFractionData_def by (rule sliceLast_fifo)
  have trend_eq: "trend (appendTrend param tpoint) = sliceLast 50 (trend param @ [tpoint])"
    by (simp add: appendTrend_def)
  have parameter: "trend (appendTrend param tpoint) = drop (length (trend param) + 1 - 50) (trend param) @ [tpoint] \<and>
    length (trend (appendTrend param tpoint)) = min 50 (length (trend param) + 1) \<and>
    last (trend (appendTrend param tpoint)) = tpoint \<and>
    (length (trend param) < 50 \<longrightarrow> trend (appendTrend param tpoint) = trend param @ [tpoint]) \<and>
    (length (trend param) = 50 \<longrightarrow>
       trend (appendTrend param tpoint) = tl (trend param) @ [tpoint] \<and>
       (distinct (trend param @ [tpoint]) \<longrightarrow>
          hd (trend param) \<notin> set (trend (appendTrend param tpoint))))"
    unfolding trend_eq by (rule sliceLast_fifo)
  have stepped: "processData (tick now r1 r2 s) =
     drop (length (processData s) + 1 - 50) (processData s) @
       [\<lparr>ProcessData.timestamp = now,
         pv = nextPV (currentPV s)
               (nextAiSp (aiEnabled s) (spLowLimit s) (spHighLimit s) (currentSP s) (manualSP s) r1) r2,
         sp = nextAiSp (aiEnabled s) (spLowLimit s) (spHighLimit s) (currentSP s) (manualSP s) r1,
         aiSp = nextAiSp (aiEnabled s) (spLowLimit s) (spHighLimit s) (currentSP s) (manualSP s) r1\<rparr>]"
    unfolding processData_tick setProcessData_def by (rule sliceLast_append)
  have stepped_length:
    "length (processData (tick now r1 r2 s)) = min 50 (length (processData s) + 1)"
    unfolding processData_tick setProcessData_def by (rule length_sliceLast_append)
  have ran: "length (processData (run initialDashboard es)) = min 50 (length (filter isTick es))"
    using length_processData_run [of initialDashboard es]
    by (simp add: initialDashboard_def)
  show ?thesis
    by (rule conjI [OF single conjI [OF fraction conjI [OF parameter
      conjI [OF stepped conjI [OF stepped_length ran]]]]])
qed

theorem history_bounded_fifo_witness:
  "length fullHistory = 50 \<and>
   setProcessData fullHistory \<lparr>ProcessData.timestamp = 50, pv = 45.7, sp = 50.2, aiSp = 50.2\<rparr>
     = tl fullHistory @ [\<lparr>ProcessData.timestamp = 50, pv = 45.7, sp = 50.2, aiSp = 50.2\<rparr>] \<and>
   length (setProcessData fullHistory \<lparr>ProcessData.timestamp = 50, pv = 45.7, sp = 50.2, aiSp = 50.2\<rparr>) = 50 \<and>
   length ([] :: ProcessData list) < 50 \<and>
   setProcessData [] \<lparr>ProcessData.timestamp = 0, pv = 45.7, sp = 50.2, aiSp = 50.2\<rparr>
     = [\<lparr>ProcessData.timestamp = 0, pv = 45.7, sp = 50.2, aiSp = 50.2\<rparr>] \<and>
   length (processData (run initialDashboard [Tick 0 (1 / 2) (1 / 2), SetAiEnabled False, Tick 1 0 0])) = 2"
proof -
  let ?p = "\<lparr>ProcessData.timestamp = 50, pv = 45.7, sp = 50.2, aiSp = 50.2\<rparr>"
  let ?q = "\<lparr>ProcessData.timestamp = 0, pv = 45.7, sp = 50.2, aiSp = 50.2\<rparr>"
  let ?es = "[Tick 0 (1 / 2) (1 / 2), SetAiEnabled False, Tick 1 0 0]"
  have full: "setProcessData fullHistory ?p = tl fullHistory @ [?p] \<and>
      length (setProcessData fullHistory ?p) = min 50 (length fullHistory + 1)"
    using history_bounded_fifo [where prev = fullHistory and point = ?p] length_fullHistory
    by blast
  have short: "length ([] :: ProcessData list) < 50 \<and> setProcessData [] ?q = [] @ [?q]"
    using history_bounded_fifo [where prev = "[]" and point = ?q]
    by simp
  have ran: "length (processData (run initialDashboard ?es)) = min 50 (length (filter isTick ?es))"
    using history_bounded_fifo [where es = ?es]
    by blast
  from full short ran show ?thesis
    by (simp add: length_fullHistory)
qed

section \<open>Setpoint and limits across a run\<close>

text \<open>
  C5 as stated (in every reachable state the AI setpoint lies within the limits) fails:
  after the operator has switched AI off and entered the manual setpoint 100, one step
  leaves the setpoint at 100, above the high limit 80.
\<close>

theorem manual_override_outside_limits:
  "currentSP manualOverrideRun = 100 \<and>
   spLowLimit manualOverrideRun = 20 \<and> spHighLimit manualOverrideRun = 80 \<and>
   ProcessData.aiSp (last (processData manualOverrideRun)) = 100 \<and>
   \<not> (spLowLimit manualOverrideRun \<le> currentSP manualOverrideRun \<and>
      currentSP manualOverrideRun \<le> spHighLimit manualOverrideRun)"
  by (simp add: manualOverrideRun_def initialDashboard_def tick_def nextAiSp_def nextPV_def
      Let_def setProcessData_def sliceLast_def)

text \<open>
  C5, amended. A step taken while AI is enabled, with the low limit not above the high
  limit, leaves the setpoint of the new state within the limits; a step taken while AI
  is disabled leaves it at the manual setpoint, whatever the limits are. In both modes
  the sample the step appends carries that setpoint as its \<open>sp\<close> and \<open>aiSp\<close>.
\<close>

theorem tick_setpoint_by_mode:
  "(aiEnabled s \<and> spLowLimit s \<le> spHighLimit s \<longrightarrow>
      spLowLimit (tick now r1 r2 s) \<le> currentSP (tick now r1 r2 s) \<and>
      currentSP (tick now r1 r2 s) \<le> spHighLimit (tick now r1 r2 s)) \<and>
   (\<not> aiEnabled s \<longrightarrow> currentSP (tick now r1 r2 s) = manualSP s) \<and>
   ProcessData.aiSp (last (processData (tick now r1 r2 s))) = currentSP (tick now r1 r2 s) \<and>
   ProcessData.sp (last (processData (tick now r1 r2 s))) = currentSP (tick now r1 r2 s)"
proof -
  have last_slice: "last (sliceLast 50 (xs @ [x])) = x" for xs :: "ProcessData list" and x
    by (simp add: sliceLast_def)
  show ?thesis
    by (simp add: tick_def Let_def nextAiSp_def setProcessData_def last_slice)
qed

theorem tick_setpoint_by_mode_witness:
  "aiEnabled initialDashboard \<and> spLowLimit initialDashboard \<le> spHighLimit initialDashboard \<and>
   spLowLimit (tick 0 (1 / 4) (1 / 2) initialDashboard)
     \<le> currentSP (tick 0 (1 / 4) (1 / 2) initialDashboard) \<and>
   currentSP (tick 0 (1 / 4) (1 / 2) initialDashboard)
     \<le> spHighLimit (tick 0 (1 / 4) (1 / 2) initialDashboard) \<and>
   currentSP (tick 0 (1 / 4) (1 / 2) initialDashboard) = 49.5 \<and>
   \<not> aiEnabled (initialDashboard\<lparr>aiEnabled := False, manualSP := 100\<rparr>) \<and>
   currentSP (tick 0 (1 / 4) (1 / 2) (initialDashboard\<lparr>aiEnabled := False, manualSP := 100\<rparr>)) = 100"
  using tick_setpoint_by_mode [of initialDashboard 0 "1 / 4" "1 / 2"]
    tick_setpoint_by_mode [of "initialDashboard\<lparr>aiEnabled := False, manualSP := 100\<rparr>" 0 "1 / 4" "1 / 2"]
  by (simp add: initialDashboard_def tick_def nextAiSp_def Let_def)

section \<open>The convergence classifier\<close>

text \<open>
  C6. The classifier is a function of \<open>(error, isConverged)\<close> alone. Icon and text
  both follow the specification's classifier: \<open>Converged\<close> whenever
  \<open>isConverged\<close> holds, otherwise \<open>Increase\<close> exactly when \<open>error > 2\<close>,
  \<open>Decrease\<close> exactly when \<open>error < -2\<close>, and \<open>FineTune\<close> in between; an
  error of 3.5 that is not converged gives \<open>Increase\<close>.
\<close>

theorem classifier_matches_spec:
  "directionOfIcon (getActionIcon error isConverged) = classify error isConverged \<and>
   directionOfText (getActionText error isConverged) = Some (classify error isConverged) \<and>
   classify error True = Converged \<and>
   (classify error False = Increase) = (2 < error) \<and>
   (classify error False = Decrease) = (error < - 2) \<and>
   (classify error False = FineTune) = (- 2 \<le> error \<and> error \<le> 2) \<and>
   getActionIcon error True = CheckCircle \<and>
   (getActionIcon error False = ArrowUp) = (2 < error) \<and>
   (getActionIcon error False = ArrowDown) = (error < - 2) \<and>
   (getActionIcon error False = Minus) = (- 2 \<le> error \<and> error \<le> 2) \<and>
   getActionIcon 3.5 False = ArrowUp \<and>
   getActionText 3.5 False = ''Increase Actuator''"
  by (simp add: getActionIcon_def getActionText_def classify_def directionOfText_def)

section \<open>Deviation percentages\<close>

text \<open>A dividend over the divisor zero, and the percentage computed from it.\<close>

lemma overflowBound_large: "2 ^ 1023 \<le> overflowBound"
  by (simp add: overflowBound_def)

lemma jsDivide_ofReal_zero:
  "jsDivide (ofReal x) (Num 0) =
     (if x = 0 then NaN else if 0 < x then PosInfinity else NegInfinity)"
  using overflowBound_large by (auto simp: ofReal_def)

lemma percentage_over_zero:
  "jsTimes (Math_abs (jsDivide (ofReal x) (Num 0))) (Num 100) =
     (if x = 0 then NaN else PosInfinity)"
  by (simp add: jsDivide_ofReal_zero)

text \<open>
  The model agrees with the code away from the zero divisor too: a tiny target makes
  the percentage overflow, and an infinite target makes it NaN.
\<close>

lemma deviation_overflow_examples:
  "fractionErrorPercentage (Num 78.5) (Num (1 / 2 ^ 1020)) = PosInfinity \<and>
   fractionErrorPercentage (Num 78.5) PosInfinity = NaN \<and>
   fractionErrorPercentage (Num 78.5) (Num 82) = Num (\<bar>(82 - 78.5) / 82\<bar> * 100)"
proof -
  have tiny: "fractionErrorPercentage (Num 78.5) (Num (1 / 2 ^ 1020)) = PosInfinity"
    by (simp add: fractionErrorPercentage_def fractionError_def ofReal_def overflowBound_def)
  have infinite: "fractionErrorPercentage (Num 78.5) PosInfinity = NaN"
    by (simp add: fractionErrorPercentage_def fractionError_def)
  have ordinary:
    "fractionErrorPercentage (Num 78.5) (Num 82) = Num (\<bar>(82 - 78.5) / 82\<bar> * 100)"
    by (simp add: fractionErrorPercentage_def fractionError_def ofReal_def overflowBound_def)
  from tiny infinite ordinary show ?thesis by simp
qed

text \<open>
  C7 as stated (a zero divisor is guarded and a sentinel reported) fails: neither
  component tests the divisor. With the target fraction 0 the fraction display computes
  Infinity (NaN when the current fraction is 0 as well), and so does the parameter card
  for a setpoint 0.
\<close>

theorem deviation_unguarded_at_zero_divisor:
  "fractionErrorPercentage (Num 78.5) (Num 0) = PosInfinity \<and>
   \<not> isFinite (fractionErrorPercentage (Num 78.5) (Num 0)) \<and>
   fractionErrorPercentage (Num 0) (Num 0) = NaN \<and>
   parameterErrorPercentage oreAtZero = PosInfinity \<and>
   \<not> isFinite (parameterErrorPercentage oreAtZero)"
  by (simp add: fractionErrorPercentage_def fractionError_def parameterErrorPercentage_def
      parameterError_def oreAtZero_def percentage_over_zero)

text \<open>
  C7, amended. When the divisor is 0 the deviation percentage is not guarded and no
  sentinel is reported: the result is not finite. It is Infinity, or NaN when the error
  is 0 or NaN. (Nothing is said of other divisors.)
\<close>

theorem deviation_at_zero_divisor:
  "(sp parameter = 0 \<longrightarrow>
      parameterErrorPercentage parameter = (if pv parameter = 0 then NaN else PosInfinity) \<and>
      \<not> isFinite (parameterErrorPercentage parameter)) \<and>
   fractionErrorPercentage currentFraction (Num 0) =
     (if currentFraction = Num 0 \<or> currentFraction = NaN then NaN else PosInfinity) \<and>
   \<not> isFinite (fractionErrorPercentage currentFraction (Num 0))"
proof -
  have card: "parameterErrorPercentage parameter = (if pv parameter = 0 then NaN else PosInfinity)"
    if "sp parameter = 0"
    using that
    by (simp add: parameterErrorPercentage_def parameterError_def percentage_over_zero)
  have display: "fractionErrorPercentage currentFraction (Num 0) =
     (if currentFraction = Num 0 \<or> currentFraction = NaN then NaN else PosInfinity)"
  proof (cases currentFraction)
    case (Num c)
    then show ?thesis
      by (simp add: fractionErrorPercentage_def fractionError_def percentage_over_zero)
  next
    case PosInfinity
    then show ?thesis
      by (simp add: fractionErrorPercentage_def fractionError_def)
  next
    case NegInfinity
    then show ?thesis
      by (simp add: fractionErrorPercentage_def fractionError_def)
  next
    case NaN
    then show ?thesis
      by (simp add: fractionErrorPercentage_def fractionError_def)
  qed
  from card display show ?thesis by simp
qed

theorem deviation_at_zero_divisor_witness:
  "sp oreAtZero = 0 \<and>
   parameterErrorPercentage oreAtZero = PosInfinity \<and>
   \<not> isFinite (parameterErrorPercentage oreAtZero) \<and>
   fractionErrorPercentage (Num 78.5) (Num 0) = PosInfinity \<and>
   fractionErrorPercentage (Num 0) (Num 0) = NaN"
  using deviation_at_zero_divisor [of oreAtZero "Num 78.5"]
    deviation_at_zero_divisor [of oreAtZero "Num 0"]
  by (simp add: oreAtZero_def)

section \<open>The fraction computed from the parameters\<close>

text \<open>
  C8. When the parameter array has no element 0 the ore term is computed from the
  fallback value 125, when it has no element 1 the water term from 45; the fraction is
  the sum of the influence terms and the noise all the same (the computation has no
  failing branch).
\<close>

theorem missing_parameter_falls_back:
  "(length parameters = 0 \<longrightarrow> oreInfluence parameters = (125 / 130) * 20) \<and>
   (length parameters \<le> 1 \<longrightarrow> waterInfluence parameters = (45 / 48) * 15) \<and>
   calculatedFraction [] powerInfluence densityInfluence noise =
     (125 / 130) * 20 + (45 / 48) * 15 + powerInfluence + densityInfluence + noise \<and>
   calculatedFraction parameters powerInfluence densityInfluence noise =
     (orDefault (pvAt parameters 0) 125 / 130) * 20 + (orDefault (pvAt parameters 1) 45 / 48) * 15
       + powerInfluence + densityInfluence + noise"
  by (simp add: calculatedFraction_def oreInfluence_def waterInfluence_def pvAt_def orDefault_def)

theorem missing_parameter_falls_back_witness:
  "length ([] :: ProcessParameter list) = 0 \<and>
   oreInfluence [] = (125 / 130) * 20 \<and>
   length [oreInitial] \<le> 1 \<and>
   waterInfluence [oreInitial] = (45 / 48) * 15 \<and>
   calculatedFraction [oreInitial] 0 0 0 = (125.5 / 130) * 20 + (45 / 48) * 15"
  using missing_parameter_falls_back [of "[]"]
    missing_parameter_falls_back [of "[oreInitial]" 0 0 0]
  by (simp add: pvAt_def orDefault_def oreInitial_def)

section \<open>The target-fraction input\<close>

text \<open>
  C10. For an input string that \<open>parseFloat\<close> maps to NaN the target-change callback
  is invoked with 0: the input is coerced, not rejected, although 0 is outside the range
  70 to 95 that the input field declares.
\<close>

theorem unparsable_target_becomes_zero:
  assumes "parseFloat v = NaN"
  shows "onChange parseFloat onTargetChange v = onTargetChange (Num 0)"
  using assms by (simp add: onChange_def orElse_def)

theorem unparsable_target_becomes_zero_witness:
  "(\<lambda>v. if v = ''82.5'' then Num 82.5 else NaN) '''' = NaN \<and>
   onChange (\<lambda>v. if v = ''82.5'' then Num 82.5 else NaN) (\<lambda>t. t) '''' = Num 0"
  using unparsable_target_becomes_zero
    [of "\<lambda>v. if v = ''82.5'' then Num 82.5 else NaN" "''''" "\<lambda>t. t"]
  by simp

end
